theory Spec2Isabelle
  imports Main "HOL-Library.AList"
begin

section \<open>JavaScript values\<close>

text \<open>
  The cash-out module works on untyped JavaScript objects: a transaction is a plain
  object whose fields are read by name, compared with \<open>===\<close>, tested for truthiness and
  walked by reflection over a list of field names. The model keeps that: a value is a
  \<open>jsval\<close>, a plain object is an association list in property order.

  Numbers are modelled as integers plus \<open>NaN\<close> (the counts and codes of this module are
  integers). \<open>JBig s\<close> is a BigNumber instance with decimal representation \<open>s\<close>
  (the \<open>fiat\<close> and \<open>cryptoAtoms\<close> fields).
\<close>

datatype jsval =
    JUndefined
  | JNull
  | JBool bool
  | JNum int
  | JNaN
  | JStr string
  | JBig string
  | JArr "jsval list"
  | JObj "(string \<times> jsval) list"

type_synonym obj = "(string \<times> jsval) list"

text \<open>An error object: its \<open>name\<close>, its \<open>message\<close> and its \<open>code\<close> property.\<close>

datatype jserr = JsError (err_name: string) (err_message: string) (err_code: jsval)

definition typeError :: "string \<Rightarrow> jserr" where
  "typeError k = JsError ''TypeError'' (''Cannot read property '' @ k) JUndefined"

text \<open>Truthiness, as \<open>!x\<close>, \<open>x && y\<close>, \<open>x || y\<close> and \<open>x ? a : b\<close> test it.\<close>

fun truthy :: "jsval \<Rightarrow> bool" where
  "truthy JUndefined = False"
| "truthy JNull = False"
| "truthy (JBool b) = b"
| "truthy (JNum n) = (n \<noteq> 0)"
| "truthy JNaN = False"
| "truthy (JStr s) = (s \<noteq> [])"
| "truthy (JBig s) = True"
| "truthy (JArr xs) = True"
| "truthy (JObj ob) = True"

text \<open>
  Strict equality \<open>===\<close>. Primitives are compared by value and \<open>NaN\<close> equals nothing.
  Objects (arrays, plain objects, BigNumbers) are compared by reference; the model has
  no references, and the operands this module compares come from different sources
  (a database row, the incoming record, a literal), so two objects are never the same
  reference: the comparison is \<open>False\<close>.
\<close>

fun strict_eq :: "jsval \<Rightarrow> jsval \<Rightarrow> bool" where
  "strict_eq JUndefined JUndefined = True"
| "strict_eq JNull JNull = True"
| "strict_eq (JBool a) (JBool b) = (a = b)"
| "strict_eq (JNum a) (JNum b) = (a = b)"
| "strict_eq (JStr a) (JStr b) = (a = b)"
| "strict_eq _ _ = False"

text \<open>SameValueZero, the comparison of lodash's \<open>includes\<close>: as \<open>===\<close>, but \<open>NaN\<close> equals itself.\<close>

fun sameValueZero :: "jsval \<Rightarrow> jsval \<Rightarrow> bool" where
  "sameValueZero JNaN JNaN = True"
| "sameValueZero a b = strict_eq a b"

fun isNil :: "jsval \<Rightarrow> bool" where
  "isNil JUndefined = True"
| "isNil JNull = True"
| "isNil _ = False"

text \<open>\<open>_.isEmpty\<close>: no own enumerable keys; primitives other than strings are empty.\<close>

fun isEmpty :: "jsval \<Rightarrow> bool" where
  "isEmpty (JStr s) = (s = [])"
| "isEmpty (JBig s) = False"
| "isEmpty (JArr xs) = (xs = [])"
| "isEmpty (JObj ob) = (ob = [])"
| "isEmpty _ = True"

text \<open>Reading a property of a plain object: \<open>undefined\<close> when the key is absent.\<close>

definition getp :: "obj \<Rightarrow> string \<Rightarrow> jsval" where
  "getp ob k = (case map_of ob k of None \<Rightarrow> JUndefined | Some v \<Rightarrow> v)"

definition hasKey :: "string \<Rightarrow> obj \<Rightarrow> bool" where
  "hasKey k ob = (map_of ob k \<noteq> None)"

text \<open>
  Member access \<open>v.k\<close> on any value: a TypeError on \<open>undefined\<close> and \<open>null\<close>, the property
  of a plain object, \<open>undefined\<close> on the other values (none of the names this module
  reads is a property of an array, a string, a number or a boolean).
\<close>

fun member :: "jsval \<Rightarrow> string \<Rightarrow> jserr + jsval" where
  "member JUndefined k = Inl (typeError k)"
| "member JNull k = Inl (typeError k)"
| "member (JObj ob) k = Inr (getp ob k)"
| "member _ k = Inr JUndefined"

text \<open>Decimal digits of a number, the key under which an object holds index \<open>i\<close>.\<close>

fun show_nat :: "nat \<Rightarrow> string" where
  "show_nat n =
     (if n < 10 then [''0123456789'' ! n]
      else show_nat (n div 10) @ [''0123456789'' ! (n mod 10)])"

definition show_int :: "int \<Rightarrow> string" where
  "show_int i = (if i < 0 then CHR ''-'' # show_nat (nat (- i)) else show_nat (nat i))"

text \<open>Index access \<open>v[i]\<close>: out of range reads \<open>undefined\<close>, as JavaScript does.\<close>

fun at_index :: "jsval \<Rightarrow> nat \<Rightarrow> jserr + jsval" where
  "at_index JUndefined i = Inl (typeError (show_nat i))"
| "at_index JNull i = Inl (typeError (show_nat i))"
| "at_index (JArr xs) i = Inr (if i < length xs then xs ! i else JUndefined)"
| "at_index (JStr s) i = Inr (if i < length s then JStr [s ! i] else JUndefined)"
| "at_index (JObj ob) i = Inr (getp ob (show_nat i))"
| "at_index _ i = Inr JUndefined"

text \<open>
  The \<open>+\<close> of two values: numeric addition after \<open>ToNumber\<close> for numbers, booleans, \<open>null\<close>
  and \<open>undefined\<close>, concatenation of two strings. A string added to a non-string, and an
  object operand, need \<open>ToString\<close> of the other operand; the module adds bill counts only,
  and the model gives \<open>NaN\<close> there.
\<close>

fun toNumber :: "jsval \<Rightarrow> int option" where
  "toNumber JNull = Some 0"
| "toNumber (JBool b) = Some (if b then 1 else 0)"
| "toNumber (JNum n) = Some n"
| "toNumber _ = None"

fun js_add :: "jsval \<Rightarrow> jsval \<Rightarrow> jsval" where
  "js_add (JStr a) (JStr b) = JStr (a @ b)"
| "js_add a b =
     (case (toNumber a, toNumber b) of
        (Some x, Some y) \<Rightarrow> JNum (x + y)
      | _ \<Rightarrow> JNaN)"

section \<open>The lodash functions the module calls\<close>

text \<open>
  The module uses \<open>lodash/fp\<close>: data last, nothing mutated. Objects keep their property
  order: \<open>AList.update\<close> replaces a value in place or appends a new key.
\<close>

definition set_fp :: "string \<Rightarrow> jsval \<Rightarrow> obj \<Rightarrow> obj" where
  "set_fp k v ob = AList.update k v ob"

definition assign_fp :: "obj \<Rightarrow> obj \<Rightarrow> obj" where
  "assign_fp ob src = fold (\<lambda>(k, v) acc. AList.update k v acc) src ob"

definition omit_fp :: "string list \<Rightarrow> obj \<Rightarrow> obj" where
  "omit_fp ks ob = filter (\<lambda>(k, v). \<not> List.member ks k) ob"

definition mapKeys_fp :: "(string \<Rightarrow> string) \<Rightarrow> obj \<Rightarrow> obj" where
  "mapKeys_fp f ob = fold (\<lambda>(k, v) acc. AList.update (f k) v acc) ob []"

definition includes_fp :: "jsval \<Rightarrow> jsval list \<Rightarrow> bool" where
  "includes_fp v xs = list_ex (\<lambda>x. sameValueZero x v) xs"

text \<open>
  \<open>_.isEqualWith(customizer, a, b)\<close>: the customizer decides when it answers (\<open>Some\<close>);
  when it returns \<open>undefined\<close> (\<open>None\<close>) lodash compares deeply, asking the customizer
  again at every element and property. Primitives are equal when they are the same
  value (\<open>NaN\<close> equals itself); objects need the same keys.
\<close>

fun isEqualWith :: "(jsval \<Rightarrow> jsval \<Rightarrow> bool option) \<Rightarrow> jsval \<Rightarrow> jsval \<Rightarrow> bool" where
  "isEqualWith c a b =
     (case c a b of
        Some r \<Rightarrow> r
      | None \<Rightarrow>
          (case (a, b) of
             (JArr xs, JArr ys) \<Rightarrow> list_all2 (isEqualWith c) xs ys
           | (JObj oa, JObj ob) \<Rightarrow>
               length oa = length ob \<and>
               list_all (\<lambda>(k, v). case map_of ob k of
                                     None \<Rightarrow> False
                                   | Some w \<Rightarrow> isEqualWith c v w) oa
           | _ \<Rightarrow> a = b))"

text \<open>
  \<open>_.merge\<close>. A source value that is an array or a plain object is merged into the
  destination's value recursively; any other source value is assigned, except that
  \<open>undefined\<close> never replaces an existing key. A plain object is merged into the
  destination's own plain object when there is one, and into a fresh object when the
  destination is absent or a primitive. (lodash merges it into a destination that is an
  array or a BigNumber, giving an object this model has no value for; the module never
  merges a plain object over one. The model starts from a fresh object there.)
\<close>

definition assignMergeValue :: "string \<Rightarrow> jsval \<Rightarrow> obj \<Rightarrow> obj" where
  "assignMergeValue k v ob =
     (if v = JUndefined \<and> hasKey k ob then ob else AList.update k v ob)"

function baseMerge :: "jsval \<Rightarrow> jsval \<Rightarrow> jsval" where
  "baseMerge d (JObj src) =
     JObj (fold (\<lambda>(k, v) acc. assignMergeValue k (baseMerge (getp acc k) v) acc) src
             (case d of JObj ob \<Rightarrow> ob | _ \<Rightarrow> []))"
| "baseMerge d (JArr src) =
     (let ds = (case d of JArr xs \<Rightarrow> xs | _ \<Rightarrow> []);
          padded = ds @ replicate (length src - length ds) JUndefined
      in JArr (map (\<lambda>(dv, s). let v = baseMerge dv s in if v = JUndefined then dv else v)
                 (zip padded src)
               @ drop (length src) ds))"
| "baseMerge d JUndefined = JUndefined"
| "baseMerge d JNull = JNull"
| "baseMerge d (JBool b) = JBool b"
| "baseMerge d (JNum n) = JNum n"
| "baseMerge d JNaN = JNaN"
| "baseMerge d (JStr s) = JStr s"
| "baseMerge d (JBig s) = JBig s"
  by pat_completeness auto
termination
proof (relation "measure (\<lambda>(d, s). size s)")
  show "wf (measure (\<lambda>(d, s). size s))" by simp
next
  fix d :: jsval and src :: obj and kv :: "string \<times> jsval" and acc :: obj
    and k :: string and v :: jsval
  assume "kv \<in> set src" and "(k, v) = kv"
  then have "(k, v) \<in> set src" by simp
  then have "size v < Suc (size_list (size_prod (\<lambda>_. 0) size) src)"
    by (induction src) auto
  then show "((getp acc k, v), (d, JObj src)) \<in> measure (\<lambda>(d, s). size s)" by simp
next
  fix d :: jsval and src ds padded :: "jsval list" and dvs :: "jsval \<times> jsval" and dv s :: jsval
  assume "dvs \<in> set (zip padded src)" and "(dv, s) = dvs"
  then have "s \<in> set src"
    by (auto dest: set_zip_rightD)
  then have "size s < Suc (size_list size src)"
    by (induction src) auto
  then show "((dv, s), (d, JArr src)) \<in> measure (\<lambda>(d, s). size s)" by simp
qed

text \<open>
  The immutable \<open>_.merge\<close> of \<open>lodash/fp\<close> first copies its first argument by merging it
  into \<open>{}\<close>.
\<close>

definition merge_fp :: "obj \<Rightarrow> obj \<Rightarrow> obj" where
  "merge_fp ob src =
     (case baseMerge (baseMerge (JObj []) (JObj ob)) (JObj src) of
        JObj r \<Rightarrow> r
      | _ \<Rightarrow> [])"

text \<open>\<open>value.toString()\<close>: a TypeError on nil, the decimal string of a BigNumber or number.\<close>

fun joinComma :: "string list \<Rightarrow> string" where
  "joinComma [] = []"
| "joinComma [s] = s"
| "joinComma (s # ss) = s @ '','' @ joinComma ss"

fun toStr :: "jsval \<Rightarrow> string" where
  "toStr JUndefined = ''undefined''"
| "toStr JNull = ''null''"
| "toStr (JBool b) = (if b then ''true'' else ''false'')"
| "toStr (JNum n) = show_int n"
| "toStr JNaN = ''NaN''"
| "toStr (JStr s) = s"
| "toStr (JBig s) = s"
| "toStr (JArr xs) = joinComma (map (\<lambda>x. if isNil x then [] else toStr x) xs)"
| "toStr (JObj ob) = ''[object Object]''"

definition toString :: "jsval \<Rightarrow> jserr + jsval" where
  "toString v = (if isNil v then Inl (typeError ''toString'') else Inr (JStr (toStr v)))"

text \<open>
  \<open>_.snakeCase\<close> on the keys of a transaction: ASCII words in camel case, with an
  optional separator such as the \<open>#\<close> that \<open>convertBigNumFields\<close> appends. A word starts at
  an upper-case letter after a lower-case letter or digit, at a change between letters
  and digits, and after a separator; words are joined by \<open>_\<close> in lower case. (lodash
  also splits inside a run of capitals, as in \<open>HTTPError\<close>; no key of the module has one.)
\<close>

datatype chclass = CLower | CUpper | CDigit | COther

definition upperChars :: string where
  "upperChars = ''ABCDEFGHIJKLMNOPQRSTUVWXYZ''"

definition lowerChars :: string where
  "lowerChars = ''abcdefghijklmnopqrstuvwxyz''"

definition classOf :: "char \<Rightarrow> chclass" where
  "classOf c =
     (if List.member lowerChars c then CLower
      else if List.member upperChars c then CUpper
      else if List.member ''0123456789'' c then CDigit
      else COther)"

definition toLower :: "char \<Rightarrow> char" where
  "toLower c = (case map_of (zip upperChars lowerChars) c of None \<Rightarrow> c | Some l \<Rightarrow> l)"

fun snakeWords :: "chclass \<Rightarrow> bool \<Rightarrow> string \<Rightarrow> string" where
  "snakeWords prev started [] = []"
| "snakeWords prev started (c # cs) =
     (let cl = classOf c;
          boundary =
            (case cl of
               CUpper \<Rightarrow> prev \<noteq> CUpper
             | CLower \<Rightarrow> prev = CDigit \<or> prev = COther
             | CDigit \<Rightarrow> prev \<noteq> CDigit
             | COther \<Rightarrow> False)
      in if cl = COther then snakeWords COther started cs
         else (if started \<and> boundary then ''_'' else []) @ toLower c # snakeWords cl True cs)"

definition snakeCase :: "string \<Rightarrow> string" where
  "snakeCase s = snakeWords COther False s"

section \<open>The database, the plugins and promises\<close>

text \<open>
  The module talks to three tables and a sequence. The model keeps each table as the
  list of its rows (a row is an object keyed by column name) and logs every statement
  sent, so that "no I/O" is the log unchanged. \<open>sold\<close> records the calls of the
  plugin's \<open>sell\<close>, whose result the module never awaits. The statements themselves
  always succeed: a failing connection is outside the model. (The one statement whose
  values the table may refuse, the update of \<open>cancel\<close>, takes the table's verdict as a
  parameter; see there.)
\<close>

datatype stmt =
    SelectTx jsval
  | InsertTx obj
  | UpdateTx obj jsval
  | InsertAction obj
  | NextHdIndex
  | UpdateDevices jsval jsval jsval

record world =
  cash_out_txs :: "obj list"
  cash_out_actions :: "obj list"
  devices :: "(jsval \<times> int \<times> int) list"
  hd_indices_seq :: int
  sold :: "obj list"
  queries :: "stmt list"

text \<open>
  A promise-returning function is a state transformer with a result: \<open>Inr\<close> a fulfilled
  value, \<open>Inl\<close> a rejection. \<open>andThen\<close> is \<open>.then(f)\<close>, \<open>catchErr\<close> is \<open>.catch(h)\<close>; an
  exception thrown inside a callback rejects the promise, so \<open>of_result\<close> turns a thrown
  error into a rejection.
\<close>

type_synonym 'a io = "world \<Rightarrow> (jserr + 'a) \<times> world"

definition resolve :: "'a \<Rightarrow> 'a io" where
  "resolve x w = (Inr x, w)"

definition reject :: "jserr \<Rightarrow> 'a io" where
  "reject e w = (Inl e, w)"

definition of_result :: "jserr + 'a \<Rightarrow> 'a io" where
  "of_result r w = (r, w)"

definition andThen :: "'a io \<Rightarrow> ('a \<Rightarrow> 'b io) \<Rightarrow> 'b io" where
  "andThen m f w = (case m w of (Inl e, w') \<Rightarrow> (Inl e, w') | (Inr x, w') \<Rightarrow> f x w')"

definition catchErr :: "'a io \<Rightarrow> (jserr \<Rightarrow> 'a io) \<Rightarrow> 'a io" where
  "catchErr m h w = (case m w of (Inl e, w') \<Rightarrow> h e w' | (Inr x, w') \<Rightarrow> (Inr x, w'))"

definition bindE :: "jserr + 'a \<Rightarrow> ('a \<Rightarrow> jserr + 'b) \<Rightarrow> jserr + 'b" where
  "bindE r f = (case r of Inl e \<Rightarrow> Inl e | Inr x \<Rightarrow> f x)"

text \<open>
  SQL: \<open>id = $1\<close> holds for two equal non-null values; pg-promise writes \<open>undefined\<close>
  as \<open>null\<close>.
\<close>

definition sql_eq :: "jsval \<Rightarrow> jsval \<Rightarrow> bool" where
  "sql_eq a b = (\<not> isNil a \<and> \<not> isNil b \<and> a = b)"

definition sqlValue :: "jsval \<Rightarrow> jsval" where
  "sqlValue v = (if v = JUndefined then JNull else v)"

definition sqlValues :: "obj \<Rightarrow> obj" where
  "sqlValues ob = map (\<lambda>(k, v). (k, sqlValue v)) ob"

definition matching :: "jsval \<Rightarrow> obj list \<Rightarrow> obj list" where
  "matching txId rows = filter (\<lambda>r. sql_eq (getp r ''id'') txId) rows"

definition logged :: "stmt \<Rightarrow> world \<Rightarrow> world" where
  "logged q w = w\<lparr>queries := queries w @ [q]\<rparr>"

text \<open>\<open>t.oneOrNone('select * from cash_out_txs where id=$1', [id])\<close>: rejects on more than one row.\<close>

definition db_oneOrNone_tx :: "jsval \<Rightarrow> (obj option) io" where
  "db_oneOrNone_tx txId w =
     (case matching txId (cash_out_txs w) of
        [] \<Rightarrow> (Inr None, logged (SelectTx txId) w)
      | [r] \<Rightarrow> (Inr (Some r), logged (SelectTx txId) w)
      | _ \<Rightarrow> (Inl (JsError ''QueryResultError'' ''Multiple rows were not expected.'' (JNum 1)),
              logged (SelectTx txId) w))"

text \<open>\<open>insert into cash_out_txs ... returning *\<close>: the new row is returned.\<close>

definition db_insert_tx :: "obj \<Rightarrow> obj io" where
  "db_insert_tx dbTx w =
     (Inr (sqlValues dbTx),
      logged (InsertTx dbTx) (w\<lparr>cash_out_txs := cash_out_txs w @ [sqlValues dbTx]\<rparr>))"

text \<open>\<open>update cash_out_txs set ... where id=$1\<close>: every matching row takes the columns; the result is the row count.\<close>

definition db_update_tx :: "obj \<Rightarrow> jsval \<Rightarrow> int io" where
  "db_update_tx cols txId w =
     (Inr (int (length (matching txId (cash_out_txs w)))),
      logged (UpdateTx cols txId)
        (w\<lparr>cash_out_txs :=
              map (\<lambda>r. if sql_eq (getp r ''id'') txId then assign_fp r (sqlValues cols) else r)
                (cash_out_txs w)\<rparr>))"

definition db_insert_action :: "obj \<Rightarrow> unit io" where
  "db_insert_action rec w =
     (Inr (),
      logged (InsertAction rec) (w\<lparr>cash_out_actions := cash_out_actions w @ [sqlValues rec]\<rparr>))"

definition db_nextval_hd :: "int io" where
  "db_nextval_hd w =
     (Inr (hd_indices_seq w + 1),
      logged NextHdIndex (w\<lparr>hd_indices_seq := hd_indices_seq w + 1\<rparr>))"

text \<open>
  \<open>update devices set cassette1 = cassette1 - $1, cassette2 = cassette2 - $2 where device_id = $3\<close>.
  With a parameter that is not a number the statement fails and no row changes.
\<close>

definition db_update_devices :: "jsval \<Rightarrow> jsval \<Rightarrow> jsval \<Rightarrow> unit io" where
  "db_update_devices v1 v2 deviceId w =
     (Inr (),
      logged (UpdateDevices v1 v2 deviceId)
        (case (v1, v2) of
           (JNum n1, JNum n2) \<Rightarrow>
             w\<lparr>devices :=
                 map (\<lambda>(dev, c1, c2). if sql_eq dev deviceId then (dev, c1 - n1, c2 - n2)
                                        else (dev, c1, c2))
                   (devices w)\<rparr>
         | _ \<Rightarrow> w))"

text \<open>
  The plugin interface \<open>pi\<close> of a device: each call fulfils with a value or rejects.
  \<open>pi.sell(tx)\<close> is fire-and-forget and is recorded in \<open>sold\<close>.
\<close>

record plugin =
  isHd :: "obj \<Rightarrow> jserr + jsval"
  newAddress :: "obj \<Rightarrow> jserr + jsval"
  buildCassettes :: "jserr + jsval"

definition pi_sell :: "obj \<Rightarrow> unit io" where
  "pi_sell tx w = (Inr (), w\<lparr>sold := sold w @ [tx]\<rparr>)"

text \<open>
  Two functions of modules that are not part of the sources read here are parameters:
  \<open>helper.toObj\<close> (a database row to a transaction object) and \<open>billMath.makeChange\<close>
  (cassettes and a fiat amount to bills, or a falsy value when no combination exists).
\<close>

record helpers =
  toObj :: "obj \<Rightarrow> obj"
  makeChange :: "jsval \<Rightarrow> jsval \<Rightarrow> jsval"

section \<open>The cash-out module\<close>

definition UPDATEABLE_FIELDS :: "string list" where
  "UPDATEABLE_FIELDS =
     [''txHash'', ''status'', ''dispense'', ''notified'', ''redeem'', ''phone'', ''error'', ''swept'']"

definition INSUFFICIENT_FUNDS_CODE :: jsval where
  "INSUFFICIENT_FUNDS_CODE = JNum 570"

definition httpError :: "string \<Rightarrow> jsval \<Rightarrow> jserr" where
  "httpError msg code = JsError ''HTTPError'' msg (if truthy code then code else JNum 500)"

subsection \<open>The audit log\<close>

definition logAction :: "jsval \<Rightarrow> obj \<Rightarrow> obj \<Rightarrow> obj io" where
  "logAction action rec0 tx =
     (let rec = assign_fp rec0
                  [(''action'', action),
                   (''tx_id'', getp tx ''id''),
                   (''redeem'', JBool (truthy (getp tx ''redeem'')))]
      in andThen (db_insert_action rec) (\<lambda>_. resolve tx))"

definition logActionById :: "jsval \<Rightarrow> obj \<Rightarrow> jsval \<Rightarrow> unit io" where
  "logActionById action rec0 txId =
     (let rec = assign_fp rec0
                  [(''action'', action), (''tx_id'', txId), (''redeem'', JBool False)]
      in db_insert_action rec)"

definition logError :: "jsval \<Rightarrow> jserr \<Rightarrow> obj \<Rightarrow> obj io" where
  "logError action err tx =
     logAction action
       [(''error'', JStr (err_message err)), (''error_code'', JStr (err_name err))] tx"

text \<open>\<open>bills[i].field\<close>, with the TypeError of reading a property of \<open>undefined\<close>.\<close>

definition billField :: "jsval \<Rightarrow> nat \<Rightarrow> string \<Rightarrow> jserr + jsval" where
  "billField bills i k = bindE (at_index bills i) (\<lambda>b. member b k)"

definition mapDispense :: "obj \<Rightarrow> jserr + obj" where
  "mapDispense tx =
     (let bills = getp tx ''bills''
      in if isEmpty bills then Inr []
         else
           bindE (billField bills 0 ''provisioned'') (\<lambda>p1.
           bindE (billField bills 1 ''provisioned'') (\<lambda>p2.
           bindE (billField bills 0 ''dispensed'') (\<lambda>d1.
           bindE (billField bills 1 ''dispensed'') (\<lambda>d2.
           bindE (billField bills 0 ''rejected'') (\<lambda>r1.
           bindE (billField bills 1 ''rejected'') (\<lambda>r2.
           bindE (billField bills 0 ''denomination'') (\<lambda>n1.
           bindE (billField bills 1 ''denomination'') (\<lambda>n2.
             Inr [(''provisioned_1'', p1), (''provisioned_2'', p2),
                  (''dispensed_1'', d1), (''dispensed_2'', d2),
                  (''rejected_1'', r1), (''rejected_2'', r2),
                  (''denomination_1'', n1), (''denomination_2'', n2)])))))))))"

definition logDispense :: "obj \<Rightarrow> obj io" where
  "logDispense tx =
     (let baseRec = [(''error'', getp tx ''error''), (''error_code'', getp tx ''errorCode'')]
      in case mapDispense tx of
           Inl e \<Rightarrow> reject e
         | Inr m \<Rightarrow>
             (let rec = merge_fp m baseRec;
                  action = (if truthy (getp tx ''dispenseConfirmed'')
                            then JStr ''dispense'' else JStr ''dispenseError'')
              in logAction action rec tx))"

subsection \<open>The transaction store\<close>

definition nilEqual :: "jsval \<Rightarrow> jsval \<Rightarrow> bool option" where
  "nilEqual a b = (if isNil a \<and> isNil b then Some True else None)"

text \<open>
  \<open>diff\<close>: \<open>oldTx\<close> may be \<open>null\<close> (\<open>None\<close>); then both guards are skipped and every field is
  copied.
\<close>

definition diff :: "obj option \<Rightarrow> obj \<Rightarrow> obj" where
  "diff oldTx newTx =
     fold (\<lambda>fieldKey updatedTx.
             if (case oldTx of
                   None \<Rightarrow> False
                 | Some old \<Rightarrow> isEqualWith nilEqual (getp old fieldKey) (getp newTx fieldKey))
             then updatedTx
             else if (case oldTx of None \<Rightarrow> False | Some old \<Rightarrow> isNil (getp newTx fieldKey))
             then updatedTx
             else AList.update fieldKey (getp newTx fieldKey) updatedTx)
       UPDATEABLE_FIELDS []"

fun mapValuesWithKey :: "(jsval \<Rightarrow> string \<Rightarrow> jserr + jsval) \<Rightarrow> obj \<Rightarrow> jserr + obj" where
  "mapValuesWithKey f [] = Inr []"
| "mapValuesWithKey f ((k, v) # rest) =
     bindE (f v k) (\<lambda>v'. bindE (mapValuesWithKey f rest) (\<lambda>r. Inr ((k, v') # r)))"

definition convertBigNumFields :: "obj \<Rightarrow> jserr + obj" where
  "convertBigNumFields ob =
     (let convert = (\<lambda>v key. if includes_fp (JStr key) [JStr ''cryptoAtoms'', JStr ''fiat'']
                              then toString v else Inr v);
          convertKey = (\<lambda>key. if includes_fp (JStr key) [JStr ''cryptoAtoms'', JStr ''fiat'']
                               then key @ ''#'' else key)
      in bindE (mapValuesWithKey convert ob) (\<lambda>m. Inr (mapKeys_fp convertKey m)))"

definition convertField :: "string \<Rightarrow> string" where
  "convertField key = snakeCase key"

definition toDb :: "obj \<Rightarrow> jserr + obj" where
  "toDb tx =
     bindE (convertBigNumFields tx)
       (\<lambda>c. Inr (mapKeys_fp convertField (omit_fp [''direction'', ''bills''] c)))"

text \<open>\<open>pgp.helpers.insert\<close> and \<open>pgp.helpers.update\<close> throw when the object has no column.\<close>

definition noColumns :: "string \<Rightarrow> jserr" where
  "noColumns what =
     JsError ''Error'' (''Cannot generate an '' @ what @ '' without any columns.'') JUndefined"

definition insert_tx :: "helpers \<Rightarrow> obj \<Rightarrow> obj io" where
  "insert_tx lib tx =
     (case toDb tx of
        Inl e \<Rightarrow> reject e
      | Inr dbTx \<Rightarrow>
          if dbTx = [] then reject (noColumns ''INSERT'')
          else andThen (db_insert_tx dbTx) (\<lambda>row. resolve (toObj lib row)))"

definition update :: "obj \<Rightarrow> obj \<Rightarrow> obj io" where
  "update tx changes =
     (if isEmpty (JObj changes) then resolve tx
      else case toDb tx of
             Inl e \<Rightarrow> reject e
           | Inr dbChanges \<Rightarrow>
               if dbChanges = [] then reject (noColumns ''UPDATE'')
               else (let newTx = merge_fp tx changes
                     in andThen (db_update_tx dbChanges (getp tx ''id'')) (\<lambda>_. resolve newTx)))"

definition upsert :: "helpers \<Rightarrow> obj option \<Rightarrow> obj \<Rightarrow> (obj option \<times> obj) io" where
  "upsert lib oldTx tx =
     (case oldTx of
        None \<Rightarrow> andThen (insert_tx lib tx) (\<lambda>newTx. resolve (oldTx, newTx))
      | Some old \<Rightarrow> andThen (update tx (diff oldTx tx)) (\<lambda>newTx. resolve (oldTx, newTx)))"

definition nextHd :: "jsval \<Rightarrow> obj \<Rightarrow> obj io" where
  "nextHd hdFlag tx =
     (if \<not> truthy hdFlag then resolve tx
      else andThen db_nextval_hd (\<lambda>hd_index. resolve (set_fp ''hdIndex'' (JNum hd_index) tx)))"

text \<open>
  \<open>updateCassettes\<close> computes its values before it sends the statement: a missing bill
  is a TypeError thrown to the caller.
\<close>

definition updateCassettes :: "obj \<Rightarrow> unit io" where
  "updateCassettes tx =
     (let bills = getp tx ''bills''
      in case
           bindE (billField bills 0 ''dispensed'') (\<lambda>d1.
           bindE (billField bills 0 ''rejected'') (\<lambda>r1.
           bindE (billField bills 1 ''dispensed'') (\<lambda>d2.
           bindE (billField bills 1 ''rejected'') (\<lambda>r2.
             Inr (js_add d1 r1, js_add d2 r2)))))
         of
           Inl e \<Rightarrow> reject e
         | Inr (v1, v2) \<Rightarrow> db_update_devices v1 v2 (getp tx ''deviceId''))"

subsection \<open>The status ratchet\<close>

definition statusOrder :: "jsval list" where
  "statusOrder =
     [JStr ''notSeen'', JStr ''published'', JStr ''rejected'',
      JStr ''authorized'', JStr ''instant'', JStr ''confirmed'']"

text \<open>\<open>Array.prototype.indexOf\<close>: the first index holding a \<open>===\<close> value, or \<open>-1\<close>.\<close>

fun indexOf :: "jsval list \<Rightarrow> jsval \<Rightarrow> int" where
  "indexOf [] v = - 1"
| "indexOf (x # xs) v =
     (if strict_eq x v then 0
      else (let i = indexOf xs v in if i < 0 then - 1 else i + 1))"

text \<open>\<open>xs[i]\<close> for a computed index: \<open>undefined\<close> outside the array, also at \<open>-1\<close>.\<close>

definition elemAt :: "jsval list \<Rightarrow> int \<Rightarrow> jsval" where
  "elemAt xs i = (if 0 \<le> i \<and> nat i < length xs then xs ! nat i else JUndefined)"

definition ratchetStatus :: "jsval \<Rightarrow> jsval \<Rightarrow> jsval" where
  "ratchetStatus oldStatus newStatus =
     (if strict_eq oldStatus newStatus then oldStatus
      else if strict_eq newStatus (JStr ''insufficientFunds'') then newStatus
      else (let idx = max (indexOf statusOrder oldStatus) (indexOf statusOrder newStatus)
            in elemAt statusOrder idx))"

definition updateStatus :: "obj \<Rightarrow> obj \<Rightarrow> obj" where
  "updateStatus oldTx newTx =
     set_fp ''status'' (ratchetStatus (getp oldTx ''status'') (getp newTx ''status'')) newTx"

subsection \<open>The lifecycle engine\<close>

text \<open>
  \<open>wasJustAuthorized\<close>: its second disjunct passes the two records themselves, not their
  statuses, to \<open>_.includes\<close>.
\<close>

definition wasJustAuthorized :: "obj \<Rightarrow> obj \<Rightarrow> bool" where
  "wasJustAuthorized oldTx newTx =
     ((\<not> strict_eq (getp oldTx ''status'') (JStr ''authorized'') \<and>
       strict_eq (getp newTx ''status'') (JStr ''authorized'')) \<or>
      (includes_fp (JObj oldTx) [JStr ''notSeen'', JStr ''published'', JStr ''authorized''] \<and>
       includes_fp (JObj newTx) [JStr ''instant'', JStr ''confirmed'']))"

text \<open>
  \<open>preProcess\<close>. In the dispense branch \<open>logDispense(updatedTx).then(updateCassettes(updatedTx))\<close>
  calls \<open>updateCassettes\<close> at once, after the audit row has been sent, and passes its
  promise to \<open>then\<close>, which ignores it: the branch fulfils with the record that
  \<open>logDispense\<close> returns, and only an exception thrown by \<open>updateCassettes\<close> reaches the
  caller.
\<close>

definition preProcess :: "plugin \<Rightarrow> obj option \<Rightarrow> obj \<Rightarrow> obj io" where
  "preProcess pi oldTx newTx =
     (case oldTx of
        None \<Rightarrow>
          catchErr
            (andThen (of_result (isHd pi newTx)) (\<lambda>hdFlag.
             andThen (nextHd hdFlag newTx) (\<lambda>newTxHd.
             andThen (of_result (newAddress pi newTxHd)) (\<lambda>address.
               (let addressedTx = set_fp ''toAddress'' address newTxHd;
                    rec = [(''to_address'', getp addressedTx ''toAddress'')]
                in logAction (JStr ''provisionAddress'') rec addressedTx)))))
            (\<lambda>err. andThen (logError (JStr ''provisionAddress'') err newTx) (\<lambda>_. reject err))
      | Some old \<Rightarrow>
          (let updatedTx = updateStatus old newTx
           in if \<not> strict_eq (getp updatedTx ''status'') (getp old ''status'') then
                andThen (if wasJustAuthorized old updatedTx then pi_sell updatedTx else resolve ())
                  (\<lambda>_. (let rec = [(''to_address'', getp updatedTx ''toAddress''),
                                    (''tx_hash'', getp updatedTx ''txHash'')]
                         in logAction (getp updatedTx ''status'') rec updatedTx))
              else if \<not> truthy (getp old ''dispenseConfirmed'') \<and>
                      truthy (getp updatedTx ''dispenseConfirmed'') then
                andThen (logDispense updatedTx) (\<lambda>logged_tx.
                andThen (updateCassettes updatedTx) (\<lambda>_. resolve logged_tx))
              else if \<not> truthy (getp old ''phone'') \<and> truthy (getp newTx ''phone'') then
                logAction (JStr ''addPhone'') [] updatedTx
              else if \<not> truthy (getp old ''redeem'') \<and> truthy (getp newTx ''redeem'') then
                logAction (JStr ''redeemLater'') [] updatedTx
              else resolve updatedTx))"

text \<open>
  The guard of \<open>postProcess\<close> reads \<open>oldTx.dispense\<close> and \<open>oldTx.redeem\<close>: with no old row
  (\<open>oldTx\<close> is \<open>null\<close>) the read is a TypeError, reached only when the new value is truthy.
\<close>

definition newlyRequested :: "obj option \<Rightarrow> obj \<Rightarrow> string \<Rightarrow> jserr + bool" where
  "newlyRequested oldTx newTx k =
     (if truthy (getp newTx k)
      then (case oldTx of None \<Rightarrow> Inl (typeError k) | Some old \<Rightarrow> Inr (\<not> truthy (getp old k)))
      else Inr False)"

definition postProcess :: "helpers \<Rightarrow> plugin \<Rightarrow> obj option \<times> obj \<Rightarrow> obj io" where
  "postProcess lib pi txVector =
     (case txVector of (oldTx, newTx) \<Rightarrow>
        andThen
          (of_result
             (bindE (newlyRequested oldTx newTx ''dispense'') (\<lambda>d.
                if d then Inr True else newlyRequested oldTx newTx ''redeem'')))
          (\<lambda>requested.
             if requested then
               catchErr
                 (andThen (of_result (buildCassettes pi)) (\<lambda>cassettes.
                  andThen (pi_sell newTx) (\<lambda>_.
                  andThen (of_result (member cassettes ''cassettes'')) (\<lambda>cs.
                    (let bills = makeChange lib cs (getp newTx ''fiat'')
                     in if \<not> truthy bills
                        then reject (httpError ''Out of bills'' INSUFFICIENT_FUNDS_CODE)
                        else
                          (let tx = set_fp ''bills'' bills newTx
                           in andThen
                                (of_result
                                   (bindE (billField (getp tx ''bills'') 0 ''provisioned'') (\<lambda>p1.
                                    bindE (billField (getp tx ''bills'') 1 ''provisioned'') (\<lambda>p2.
                                    bindE (billField (getp tx ''bills'') 0 ''denomination'') (\<lambda>n1.
                                    bindE (billField (getp tx ''bills'') 1 ''denomination'') (\<lambda>n2.
                                      Inr [(''provisioned_1'', p1), (''provisioned_2'', p2),
                                           (''denomination_1'', n1), (''denomination_2'', n2)]))))))
                                (\<lambda>rec. logAction (JStr ''provisionNotes'') rec tx)))))))
                 (\<lambda>err. andThen (logError (JStr ''provisionNotesError'') err newTx)
                          (\<lambda>_. reject err))
             else resolve newTx))"

text \<open>
  \<open>post\<close>: the select, \<open>preProcess\<close> and \<open>upsert\<close> run inside \<open>db.tx\<close>, but only the
  select goes through the transaction's connection \<open>t\<close>; every write of the module goes
  through \<open>db\<close> and stays when a later step rejects.
\<close>

definition transaction :: "helpers \<Rightarrow> plugin \<Rightarrow> obj \<Rightarrow> (obj option \<times> obj) io" where
  "transaction lib pi tx =
     andThen (db_oneOrNone_tx (getp tx ''id'')) (\<lambda>row.
       (let oldTx = map_option (toObj lib) row
        in andThen (preProcess pi oldTx tx) (\<lambda>preProcessedTx. upsert lib oldTx preProcessedTx)))"

definition post :: "helpers \<Rightarrow> plugin \<Rightarrow> obj \<Rightarrow> obj io" where
  "post lib pi tx =
     andThen (transaction lib pi tx) (\<lambda>txVector.
       andThen (postProcess lib pi txVector) (\<lambda>changes. update (snd txVector) changes))"

subsection \<open>Cancellation\<close>

text \<open>
  The record \<open>cancel\<close> passes to \<open>pgp.helpers.update\<close> holds the string \<open>'now()^'\<close> as the
  \<^emph>\<open>value\<close> of \<open>dispense_time\<close>. pg-promise reads the raw-text marker \<open>^\<close> in a column name
  or a format variable, not in a value: a string value is sent as a quoted literal, so
  the statement sets \<open>dispense_time\<close> to the text \<open>now()^\<close>, not to the result of \<open>now()\<close>.
\<close>

definition updateRec :: obj where
  "updateRec =
     [(''dispense_time'', JStr ''now()^''),
      (''error'', JStr ''Operator cancel''),
      (''dispense'', JBool True)]"

text \<open>
  What \<open>cash_out_txs\<close> does with that text depends on the type of its \<open>dispense_time\<close>
  column, and the schema is not part of the sources read here. It is a parameter:
  \<open>storeCheck\<close> gives the table's reading of the columns of a statement, either the
  error it refuses them with (\<open>Inl\<close>) or the values as it stores them (\<open>Inr\<close>: a text
  column keeps the text, a timestamp column keeps the time it reads the text as, if it
  reads it). A refused statement changes no row and rejects the promise of \<open>db.result\<close>;
  an accepted one fulfils with the number of rows it updated.
\<close>

definition db_result_update_tx :: "(obj \<Rightarrow> jserr + obj) \<Rightarrow> obj \<Rightarrow> jsval \<Rightarrow> int io" where
  "db_result_update_tx storeCheck cols txId w =
     (case storeCheck cols of
        Inl e \<Rightarrow> (Inl e, logged (UpdateTx cols txId) w)
      | Inr stored \<Rightarrow>
          (Inr (int (length (matching txId (cash_out_txs w)))),
           logged (UpdateTx cols txId)
             (w\<lparr>cash_out_txs :=
                   map (\<lambda>r. if sql_eq (getp r ''id'') txId
                             then assign_fp r (sqlValues stored) else r)
                     (cash_out_txs w)\<rparr>)))"

definition cancel :: "(obj \<Rightarrow> jserr + obj) \<Rightarrow> jsval \<Rightarrow> unit io" where
  "cancel storeCheck txId =
     andThen (db_result_update_tx storeCheck updateRec txId) (\<lambda>rowCount.
     andThen (if rowCount \<noteq> 1
              then reject (JsError ''Error'' ''No such tx-id'' JUndefined)
              else resolve ())
       (\<lambda>_. logActionById (JStr ''operatorCompleted'') [] txId))"

section \<open>Statuses, typing and sample data\<close>

text \<open>The statuses a transaction can carry: the ratchet order plus the override.\<close>

definition validStatuses :: "jsval list" where
  "validStatuses = statusOrder @ [JStr ''insufficientFunds'']"

text \<open>
  The values a column of \<open>cash_out_txs\<close> holds, and a JSON field of an incoming record:
  text, booleans, numbers, \<open>null\<close> or nothing.
\<close>

fun primitive :: "jsval \<Rightarrow> bool" where
  "primitive JUndefined = True"
| "primitive JNull = True"
| "primitive (JBool b) = True"
| "primitive (JNum n) = True"
| "primitive (JStr s) = True"
| "primitive _ = False"

text \<open>
  The fields whose old and new values the module compares on an existing row: the
  updateable fields (by \<open>diff\<close>, and \<open>status\<close>, \<open>phone\<close>, \<open>redeem\<close> and \<open>dispense\<close> by the
  guards of \<open>preProcess\<close> and \<open>postProcess\<close>) and \<open>dispenseConfirmed\<close>.
\<close>

definition comparedFields :: "string list" where
  "comparedFields = ''dispenseConfirmed'' # UPDATEABLE_FIELDS"

text \<open>
  The "just authorized" transition as the specification words it, on the two statuses;
  to be compared with \<open>wasJustAuthorized\<close>, which is what the module computes.
\<close>

definition justAuthorized_spec :: "jsval \<Rightarrow> jsval \<Rightarrow> bool" where
  "justAuthorized_spec oldStatus newStatus =
     ((oldStatus \<noteq> JStr ''authorized'' \<and> newStatus = JStr ''authorized'') \<or>
      (List.member [JStr ''notSeen'', JStr ''published'', JStr ''authorized''] oldStatus \<and>
       List.member [JStr ''instant'', JStr ''confirmed''] newStatus))"

text \<open>
  Sample collaborators and records for the concrete runs below: a \<open>toObj\<close> that returns
  the row as it is (the sample rows use one-word column names), a \<open>makeChange\<close> that
  finds no combination, a plugin without HD addresses, and a database with one device.
\<close>

definition sample_lib :: helpers where
  "sample_lib = \<lparr>toObj = (\<lambda>row. row), makeChange = (\<lambda>cassettes fiat. JNull)\<rparr>"

definition sample_pi :: plugin where
  "sample_pi =
     \<lparr>isHd = (\<lambda>tx. Inr (JBool False)),
      newAddress = (\<lambda>tx. Inr (JStr ''addr1'')),
      buildCassettes =
        Inr (JObj [(''cassettes'',
               JArr [JObj [(''denomination'', JNum 20), (''count'', JNum 5)],
                     JObj [(''denomination'', JNum 50), (''count'', JNum 5)]])])\<rparr>"

definition world_with :: "obj list \<Rightarrow> world" where
  "world_with rows =
     \<lparr>cash_out_txs = rows, cash_out_actions = [], devices = [(JStr ''d1'', 5, 5)],
      hd_indices_seq = 0, sold = [], queries = []\<rparr>"

definition published_tx :: obj where
  "published_tx =
     [(''id'', JStr ''t1''), (''status'', JStr ''published''), (''phone'', JStr ''555'')]"

definition confirmed_tx :: obj where
  "confirmed_tx =
     [(''id'', JStr ''t1''), (''status'', JStr ''confirmed''), (''phone'', JNull)]"

definition bills_tx :: jsval where
  "bills_tx =
     JArr [JObj [(''provisioned'', JNum 2), (''dispensed'', JNum 1),
                 (''rejected'', JNum 1), (''denomination'', JNum 20)],
           JObj [(''provisioned'', JNum 1), (''dispensed'', JNum 1),
                 (''rejected'', JNum 0), (''denomination'', JNum 50)]]"

definition dispensing_tx :: obj where
  "dispensing_tx =
     [(''id'', JStr ''t1''), (''status'', JStr ''confirmed''), (''deviceId'', JStr ''d1''),
      (''dispense'', JBool True), (''dispenseConfirmed'', JBool False)]"

definition dispensed_err_tx :: obj where
  "dispensed_err_tx =
     [(''id'', JStr ''t1''), (''status'', JStr ''confirmed''), (''deviceId'', JStr ''d1''),
      (''dispense'', JBool True), (''dispenseConfirmed'', JBool True),
      (''error'', JStr ''Cassette jam''), (''bills'', bills_tx)]"

definition dispense_request_tx :: obj where
  "dispense_request_tx =
     [(''id'', JStr ''t1''), (''status'', JStr ''published''), (''phone'', JStr ''555''),
      (''fiat'', JBig ''70''), (''dispense'', JBool True)]"

definition full_tx :: obj where
  "full_tx =
     [(''id'', JStr ''t1''), (''status'', JStr ''confirmed''), (''toAddress'', JStr ''addr1''),
      (''fiat'', JBig ''20''), (''phone'', JNull)]"

text \<open>
  Two sample tables for \<open>cancel\<close>: one whose \<open>dispense_time\<close> column keeps any text, and
  one that refuses the text \<open>now()^\<close> as a timestamp.
\<close>

definition text_store :: "obj \<Rightarrow> jserr + obj" where
  "text_store cols = Inr cols"

definition strict_timestamp_store :: "obj \<Rightarrow> jserr + obj" where
  "strict_timestamp_store cols =
     (if getp cols ''dispense_time'' = JStr ''now()^''
      then Inl (JsError ''error'' ''invalid input syntax for type timestamp with time zone''
                  (JStr ''22007''))
      else Inr cols)"

section \<open>Properties of the status ratchet\<close>

lemma idx_simps:
  "indexOf statusOrder (JStr ''notSeen'') = 0"
  "indexOf statusOrder (JStr ''published'') = 1"
  "indexOf statusOrder (JStr ''rejected'') = 2"
  "indexOf statusOrder (JStr ''authorized'') = 3"
  "indexOf statusOrder (JStr ''instant'') = 4"
  "indexOf statusOrder (JStr ''confirmed'') = 5"
  "indexOf statusOrder (JStr ''insufficientFunds'') = - 1"
  by (simp_all add: statusOrder_def)

lemma elem_simps:
  "elemAt statusOrder 0 = JStr ''notSeen''"
  "elemAt statusOrder 1 = JStr ''published''"
  "elemAt statusOrder 2 = JStr ''rejected''"
  "elemAt statusOrder 3 = JStr ''authorized''"
  "elemAt statusOrder 4 = JStr ''instant''"
  "elemAt statusOrder 5 = JStr ''confirmed''"
  by (simp_all add: statusOrder_def elemAt_def)


lemma mem_simps:
  "JStr ''notSeen'' \<in> set statusOrder"
  "JStr ''published'' \<in> set statusOrder"
  "JStr ''rejected'' \<in> set statusOrder"
  "JStr ''authorized'' \<in> set statusOrder"
  "JStr ''instant'' \<in> set statusOrder"
  "JStr ''confirmed'' \<in> set statusOrder"
  by (simp_all add: statusOrder_def)

lemma valid_cases:
  assumes "s \<in> set validStatuses"
  shows "s = JStr ''notSeen'' \<or> s = JStr ''published'' \<or> s = JStr ''rejected'' \<or>
         s = JStr ''authorized'' \<or> s = JStr ''instant'' \<or> s = JStr ''confirmed'' \<or>
         s = JStr ''insufficientFunds''"
  using assms by (simp add: validStatuses_def statusOrder_def)

text \<open>
  Claim C2. For every pair of statuses among the six of the ratchet order and
  \<open>insufficientFunds\<close>: when the new status is \<open>insufficientFunds\<close> the ratchet returns it;
  otherwise the result is a status of the order whose rank (\<open>indexOf\<close>, which gives
  \<open>insufficientFunds\<close> the rank \<open>-1\<close>) is not below the rank of the old status; and equal
  statuses are returned unchanged.
\<close>

theorem ratchetStatus_monotone:
  assumes "old \<in> set validStatuses" and "new \<in> set validStatuses"
  shows "(new = JStr ''insufficientFunds'' \<longrightarrow>
            ratchetStatus old new = JStr ''insufficientFunds'') \<and>
         (new \<noteq> JStr ''insufficientFunds'' \<longrightarrow>
            ratchetStatus old new \<in> set statusOrder \<and>
            indexOf statusOrder old \<le> indexOf statusOrder (ratchetStatus old new)) \<and>
         (old = new \<longrightarrow> ratchetStatus old new = old)"
  using valid_cases [OF assms(1)] valid_cases [OF assms(2)]
  by (elim disjE; simp add: ratchetStatus_def idx_simps elem_simps mem_simps)

theorem ratchetStatus_monotone_witness:
  "JStr ''published'' \<in> set validStatuses \<and> JStr ''notSeen'' \<in> set validStatuses \<and>
   ratchetStatus (JStr ''published'') (JStr ''notSeen'') = JStr ''published'' \<and>
   indexOf statusOrder (JStr ''published'')
     \<le> indexOf statusOrder (ratchetStatus (JStr ''published'') (JStr ''notSeen''))"
proof -
  have a: "JStr ''published'' \<in> set validStatuses"
    by (simp add: validStatuses_def statusOrder_def)
  have b: "JStr ''notSeen'' \<in> set validStatuses"
    by (simp add: validStatuses_def statusOrder_def)
  have c: "ratchetStatus (JStr ''published'') (JStr ''notSeen'') = JStr ''published''"
    by (simp add: ratchetStatus_def idx_simps elem_simps)
  from ratchetStatus_monotone [OF a b] a b c show ?thesis by simp
qed

lemma order_cases:
  assumes "s \<in> set statusOrder"
  shows "s = JStr ''notSeen'' \<or> s = JStr ''published'' \<or> s = JStr ''rejected'' \<or>
         s = JStr ''authorized'' \<or> s = JStr ''instant'' \<or> s = JStr ''confirmed''"
  using assms by (simp add: statusOrder_def)

text \<open>
  Claim C10. The override is not sticky: from \<open>insufficientFunds\<close>, every status of the
  ratchet order is taken as it comes, since \<open>insufficientFunds\<close> has no index in the order.
\<close>

theorem insufficientFunds_not_sticky:
  assumes "newStatus \<in> set statusOrder"
  shows "ratchetStatus (JStr ''insufficientFunds'') newStatus = newStatus"
  using order_cases [OF assms]
  by (elim disjE; simp add: ratchetStatus_def idx_simps elem_simps)

theorem insufficientFunds_not_sticky_witness:
  "JStr ''notSeen'' \<in> set statusOrder \<and>
   ratchetStatus (JStr ''insufficientFunds'') (JStr ''notSeen'') = JStr ''notSeen''"
  using insufficientFunds_not_sticky [of "JStr ''notSeen''"] mem_simps(1) by simp

section \<open>Unfolding promises\<close>

lemmas promise_defs = resolve_def reject_def of_result_def andThen_def catchErr_def
  bindE_def Let_def

section \<open>Properties of the settlement trigger\<close>

text \<open>
  What \<open>wasJustAuthorized\<close> computes: its second disjunct asks whether a record (an
  object) is one of a list of strings, which never holds, so only the move into
  \<open>authorized\<close> is left.
\<close>

lemma wasJustAuthorized_actual:
  "wasJustAuthorized oldTx newTx =
     (\<not> strict_eq (getp oldTx ''status'') (JStr ''authorized'') \<and>
      strict_eq (getp newTx ''status'') (JStr ''authorized''))"
  by (simp add: wasJustAuthorized_def includes_fp_def)

text \<open>
  So on an existing row whose ratcheted status differs from the old one, \<open>preProcess\<close>
  calls \<open>pi.sell\<close> exactly when the status moves into \<open>authorized\<close>.
\<close>

lemma preProcess_sell_iff:
  assumes "\<not> strict_eq (getp (updateStatus old new) ''status'') (getp old ''status'')"
  shows "sold (snd (preProcess pi (Some old) new w)) =
           (if \<not> strict_eq (getp old ''status'') (JStr ''authorized'') \<and>
               strict_eq (getp (updateStatus old new) ''status'') (JStr ''authorized'')
            then sold w @ [updateStatus old new] else sold w)"
  using assms
  by (simp add: preProcess_def wasJustAuthorized_actual logAction_def db_insert_action_def
      logged_def pi_sell_def promise_defs)

text \<open>
  Claim C1, at the stored status \<open>published\<close> and the incoming status \<open>confirmed\<close>: the
  ratcheted status is \<open>confirmed\<close>, so the transition is "just authorized" in the
  specification's words (from \<open>published\<close> into \<open>confirmed\<close>) and the settlement call is
  due; \<open>preProcess\<close> appends the \<open>confirmed\<close> audit entry and never calls \<open>pi.sell\<close>.
\<close>

theorem sell_skipped_published_to_confirmed:
  "getp (updateStatus published_tx confirmed_tx) ''status'' = JStr ''confirmed'' \<and>
   justAuthorized_spec (getp published_tx ''status'')
     (getp (updateStatus published_tx confirmed_tx) ''status'') \<and>
   sold (snd (preProcess sample_pi (Some published_tx) confirmed_tx (world_with [published_tx]))) = [] \<and>
   cash_out_actions
     (snd (preProcess sample_pi (Some published_tx) confirmed_tx (world_with [published_tx]))) =
     [[(''to_address'', JNull), (''tx_hash'', JNull), (''action'', JStr ''confirmed''),
       (''tx_id'', JStr ''t1''), (''redeem'', JBool False)]]"
  by code_simp

section \<open>Properties of the transaction store\<close>

lemma getp_update: "getp (AList.update k v ob) k' = (if k' = k then v else getp ob k')"
  by (simp add: getp_def update_conv')

lemma fold_patch:
  assumes "distinct ks"
  shows "map_of (fold (\<lambda>k acc. if A k then acc else if B k then acc
                                else AList.update k (g k) acc) ks acc0) f =
         (if f \<in> set ks \<and> \<not> A f \<and> \<not> B f then Some (g f) else map_of acc0 f)"
  using assms
proof (induction ks arbitrary: acc0)
  case Nil
  then show ?case by simp
next
  case (Cons k ks)
  then show ?case by (auto simp: update_conv')
qed

text \<open>
  The patch of \<open>diff\<close> against an existing row: an updateable field is in it exactly when
  its new value differs from the old one (two nil values are equal) and is not nil, and
  it carries the new value. Nothing else is in the patch. With no old row every
  updateable field is copied.
\<close>

lemma diff_includes_iff:
  assumes "f \<in> set UPDATEABLE_FIELDS"
  shows "map_of (diff (Some old) new) f =
         (if \<not> isEqualWith nilEqual (getp old f) (getp new f) \<and> \<not> isNil (getp new f)
          then Some (getp new f) else None)"
proof -
  have d: "distinct UPDATEABLE_FIELDS" by (simp add: UPDATEABLE_FIELDS_def)
  show ?thesis
    unfolding diff_def using assms by (simp add: fold_patch [OF d])
qed

lemma diff_keys:
  "map_of (diff oldTx new) f \<noteq> None \<Longrightarrow> f \<in> set UPDATEABLE_FIELDS"
proof -
  have d: "distinct UPDATEABLE_FIELDS" by (simp add: UPDATEABLE_FIELDS_def)
  show "map_of (diff oldTx new) f \<noteq> None \<Longrightarrow> f \<in> set UPDATEABLE_FIELDS"
    unfolding diff_def by (simp add: fold_patch [OF d] split: if_splits)
qed

lemma diff_no_old_row:
  assumes "f \<in> set UPDATEABLE_FIELDS"
  shows "map_of (diff None new) f = Some (getp new f)"
proof -
  have d: "distinct UPDATEABLE_FIELDS" by (simp add: UPDATEABLE_FIELDS_def)
  show ?thesis
    unfolding diff_def
    using assms fold_patch [OF d, of "\<lambda>_. False" "\<lambda>_. False" "getp new" "[]" f]
    by simp
qed

lemma diff_never_nil:
  assumes "map_of (diff (Some old) new) f = Some v"
  shows "\<not> isNil v"
proof -
  from assms have "f \<in> set UPDATEABLE_FIELDS"
    using diff_keys [of "Some old" new f] by simp
  from diff_includes_iff [OF this, of old new] assms show ?thesis
    by (simp split: if_splits)
qed

text \<open>
  Claim C3, at a stored row with phone \<open>555\<close> and an incoming record with the status
  \<open>confirmed\<close> and the phone \<open>null\<close>: \<open>diff\<close> leaves the phone out of the patch, as the
  claim says, but \<open>update\<close> sends the whole incoming record, and after \<open>post\<close> the stored
  phone is \<open>null\<close>.
\<close>

theorem stored_phone_nulled_by_update:
  "getp published_tx ''phone'' = JStr ''555'' \<and>
   getp confirmed_tx ''phone'' = JNull \<and>
   diff (Some published_tx) confirmed_tx = [(''status'', JStr ''confirmed'')] \<and>
   cash_out_txs (snd (post sample_lib sample_pi confirmed_tx (world_with [published_tx]))) =
     [[(''id'', JStr ''t1''), (''status'', JStr ''confirmed''), (''phone'', JNull)]]"
  by code_simp

text \<open>
  Claim C4, at a record of five fields and the patch \<open>{status: 'confirmed'}\<close>: the
  statement \<open>update\<close> sends sets all five columns of the record (\<open>toDb(tx)\<close>), not the
  one column of the patch; the record returned is the record merged with the patch.
\<close>

theorem update_writes_whole_record:
  "queries (snd (update full_tx [(''status'', JStr ''confirmed'')] (world_with [published_tx]))) =
     [UpdateTx [(''id'', JStr ''t1''), (''status'', JStr ''confirmed''),
                (''to_address'', JStr ''addr1''), (''fiat'', JStr ''20''), (''phone'', JNull)]
        (JStr ''t1'')] \<and>
   fst (update full_tx [(''status'', JStr ''confirmed'')] (world_with [published_tx])) =
     Inr full_tx"
  by code_simp

text \<open>
  Claim C5. For every record and every database state, \<open>update\<close> with an empty patch
  sends no statement, changes nothing and returns the record as it is; doing it again
  gives the same.
\<close>

theorem update_empty_patch_noop:
  "update tx [] w = (Inr tx, w) \<and>
   andThen (update tx []) (\<lambda>t. update t []) w = (Inr tx, w)"
  by (simp add: update_def promise_defs)

section \<open>Properties of the dispense path\<close>

text \<open>
  \<open>logDispense\<close> on a record whose \<open>dispenseConfirmed\<close> is truthy, as in the only branch
  that calls it: the entry is named \<open>dispense\<close>, whatever the record's \<open>error\<close> is.
\<close>

lemma logDispense_action:
  assumes "truthy (getp tx ''dispenseConfirmed'')"
    and "mapDispense tx = Inr m"
  shows "cash_out_actions (snd (logDispense tx w)) =
           cash_out_actions w @
             [sqlValues
                (assign_fp
                   (merge_fp m [(''error'', getp tx ''error''),
                                (''error_code'', getp tx ''errorCode'')])
                   [(''action'', JStr ''dispense''), (''tx_id'', getp tx ''id''),
                    (''redeem'', JBool (truthy (getp tx ''redeem'')))])]"
  using assms
  by (simp add: logDispense_def logAction_def db_insert_action_def logged_def promise_defs)

text \<open>
  Claim C7, at a stored row with \<open>dispenseConfirmed\<close> false and an incoming record with
  the same status, \<open>dispenseConfirmed\<close> true, an error and two bills: one audit entry
  is appended, with the per-cassette counts and the error, and the cassettes of the
  device go down by dispensed plus rejected (5 to 3 and 5 to 4); but the entry's action
  is \<open>dispense\<close> although an error is set, because \<open>logDispense\<close> chooses the name by
  \<open>dispenseConfirmed\<close>, which is true whenever this branch runs.
\<close>

theorem dispense_logged_despite_error:
  "getp dispensed_err_tx ''error'' = JStr ''Cassette jam'' \<and>
   cash_out_actions
     (snd (preProcess sample_pi (Some dispensing_tx) dispensed_err_tx (world_with [dispensing_tx]))) =
     [[(''provisioned_1'', JNum 2), (''provisioned_2'', JNum 1),
       (''dispensed_1'', JNum 1), (''dispensed_2'', JNum 1),
       (''rejected_1'', JNum 1), (''rejected_2'', JNum 0),
       (''denomination_1'', JNum 20), (''denomination_2'', JNum 50),
       (''error'', JStr ''Cassette jam''), (''error_code'', JNull),
       (''action'', JStr ''dispense''), (''tx_id'', JStr ''t1''), (''redeem'', JBool False)]] \<and>
   devices
     (snd (preProcess sample_pi (Some dispensing_tx) dispensed_err_tx (world_with [dispensing_tx]))) =
     [(JStr ''d1'', 3, 4)]"
  by code_simp

section \<open>Properties of post-processing\<close>

lemma requested_true:
  assumes "(truthy (getp new ''dispense'') \<and> \<not> truthy (getp old ''dispense'')) \<or>
           (truthy (getp new ''redeem'') \<and> \<not> truthy (getp old ''redeem''))"
  shows "bindE (newlyRequested (Some old) new ''dispense'')
           (\<lambda>d. if d then Inr True else newlyRequested (Some old) new ''redeem'') = Inr True"
  using assms by (auto simp: newlyRequested_def bindE_def)

lemma postProcess_out_of_bills:
  assumes req: "(truthy (getp new ''dispense'') \<and> \<not> truthy (getp old ''dispense'')) \<or>
                (truthy (getp new ''redeem'') \<and> \<not> truthy (getp old ''redeem''))"
    and cas: "buildCassettes pi = Inr cassettes"
    and mem: "member cassettes ''cassettes'' = Inr cs"
    and none: "\<not> truthy (makeChange lib cs (getp new ''fiat''))"
  shows "postProcess lib pi (Some old, new) w1 =
           (Inl (JsError ''HTTPError'' ''Out of bills'' (JNum 570)),
            w1\<lparr>sold := sold w1 @ [new],
               cash_out_actions := cash_out_actions w1 @
                 [[(''error'', JStr ''Out of bills''), (''error_code'', JStr ''HTTPError''),
                   (''action'', JStr ''provisionNotesError''),
                   (''tx_id'', sqlValue (getp new ''id'')),
                   (''redeem'', JBool (truthy (getp new ''redeem'')))]],
               queries := queries w1 @
                 [InsertAction
                   [(''error'', JStr ''Out of bills''), (''error_code'', JStr ''HTTPError''),
                    (''action'', JStr ''provisionNotesError''),
                    (''tx_id'', getp new ''id''),
                    (''redeem'', JBool (truthy (getp new ''redeem'')))]]\<rparr>)"
proof -
  have "postProcess lib pi (Some old, new) w1 =
          catchErr
            (andThen (of_result (buildCassettes pi)) (\<lambda>cassettes.
             andThen (pi_sell new) (\<lambda>_.
             andThen (of_result (member cassettes ''cassettes'')) (\<lambda>cs.
               (let bills = makeChange lib cs (getp new ''fiat'')
                in if \<not> truthy bills
                   then reject (httpError ''Out of bills'' INSUFFICIENT_FUNDS_CODE)
                   else
                     (let tx = set_fp ''bills'' bills new
                      in andThen
                           (of_result
                              (bindE (billField (getp tx ''bills'') 0 ''provisioned'') (\<lambda>p1.
                               bindE (billField (getp tx ''bills'') 1 ''provisioned'') (\<lambda>p2.
                               bindE (billField (getp tx ''bills'') 0 ''denomination'') (\<lambda>n1.
                               bindE (billField (getp tx ''bills'') 1 ''denomination'') (\<lambda>n2.
                                 Inr [(''provisioned_1'', p1), (''provisioned_2'', p2),
                                      (''denomination_1'', n1), (''denomination_2'', n2)]))))))
                           (\<lambda>rec. logAction (JStr ''provisionNotes'') rec tx)))))))
            (\<lambda>err. andThen (logError (JStr ''provisionNotesError'') err new)
                     (\<lambda>_. reject err)) w1"
    unfolding postProcess_def
    by (simp add: requested_true [OF req] andThen_def of_result_def)
  also have "\<dots> = (Inl (JsError ''HTTPError'' ''Out of bills'' (JNum 570)),
            w1\<lparr>sold := sold w1 @ [new],
               cash_out_actions := cash_out_actions w1 @
                 [[(''error'', JStr ''Out of bills''), (''error_code'', JStr ''HTTPError''),
                   (''action'', JStr ''provisionNotesError''),
                   (''tx_id'', sqlValue (getp new ''id'')),
                   (''redeem'', JBool (truthy (getp new ''redeem'')))]],
               queries := queries w1 @
                 [InsertAction
                   [(''error'', JStr ''Out of bills''), (''error_code'', JStr ''HTTPError''),
                    (''action'', JStr ''provisionNotesError''),
                    (''tx_id'', getp new ''id''),
                    (''redeem'', JBool (truthy (getp new ''redeem'')))]]\<rparr>)"
    using cas mem none
    by (simp add: catchErr_def andThen_def of_result_def reject_def resolve_def pi_sell_def
        httpError_def INSUFFICIENT_FUNDS_CODE_def logError_def logAction_def assign_fp_def
        db_insert_action_def logged_def sqlValues_def sqlValue_def Let_def)
  finally show ?thesis .
qed

text \<open>
  Claim C6. When the transaction step of \<open>post\<close> has succeeded on an existing row,
  dispensing or redemption is newly requested, the cassettes were obtained and
  \<open>makeChange\<close> finds no combination for the fiat amount, then \<open>post\<close> rejects with the
  HTTP error of code 570; the only statement sent after the transaction step is the
  insert of one \<open>provisionNotesError\<close> audit entry that names the error, so no bills are
  attached or persisted and \<open>cash_out_txs\<close> is as the transaction step left it.
\<close>

theorem post_out_of_bills:
  assumes tr: "transaction lib pi tx w = (Inr (Some old, new), w1)"
    and req: "(truthy (getp new ''dispense'') \<and> \<not> truthy (getp old ''dispense'')) \<or>
              (truthy (getp new ''redeem'') \<and> \<not> truthy (getp old ''redeem''))"
    and cas: "buildCassettes pi = Inr cassettes"
    and mem: "member cassettes ''cassettes'' = Inr cs"
    and none: "\<not> truthy (makeChange lib cs (getp new ''fiat''))"
  shows "fst (post lib pi tx w) = Inl (httpError ''Out of bills'' INSUFFICIENT_FUNDS_CODE) \<and>
         err_code (httpError ''Out of bills'' INSUFFICIENT_FUNDS_CODE) = JNum 570 \<and>
         cash_out_actions (snd (post lib pi tx w)) =
           cash_out_actions w1 @
             [[(''error'', JStr ''Out of bills''), (''error_code'', JStr ''HTTPError''),
               (''action'', JStr ''provisionNotesError''),
               (''tx_id'', sqlValue (getp new ''id'')),
               (''redeem'', JBool (truthy (getp new ''redeem'')))]] \<and>
         cash_out_txs (snd (post lib pi tx w)) = cash_out_txs w1 \<and>
         queries (snd (post lib pi tx w)) =
           queries w1 @
             [InsertAction
               [(''error'', JStr ''Out of bills''), (''error_code'', JStr ''HTTPError''),
                (''action'', JStr ''provisionNotesError''),
                (''tx_id'', getp new ''id''),
                (''redeem'', JBool (truthy (getp new ''redeem'')))]]"
proof -
  have "post lib pi tx w =
          andThen (postProcess lib pi (Some old, new)) (\<lambda>changes. update new changes) w1"
    by (simp add: post_def andThen_def tr)
  then show ?thesis
    by (simp add: andThen_def postProcess_out_of_bills [OF req cas mem none]
        INSUFFICIENT_FUNDS_CODE_def httpError_def)
qed

theorem post_out_of_bills_witness:
  "fst (post sample_lib sample_pi dispense_request_tx (world_with [published_tx])) =
     Inl (JsError ''HTTPError'' ''Out of bills'' (JNum 570)) \<and>
   cash_out_actions (snd (post sample_lib sample_pi dispense_request_tx (world_with [published_tx]))) =
     [[(''error'', JStr ''Out of bills''), (''error_code'', JStr ''HTTPError''),
       (''action'', JStr ''provisionNotesError''), (''tx_id'', JStr ''t1''),
       (''redeem'', JBool False)]] \<and>
   cash_out_txs (snd (post sample_lib sample_pi dispense_request_tx (world_with [published_tx]))) =
     cash_out_txs (snd (transaction sample_lib sample_pi dispense_request_tx
                          (world_with [published_tx])))"
proof -
  obtain w1 where w1: "w1 = snd (transaction sample_lib sample_pi dispense_request_tx
                                   (world_with [published_tx]))"
    by simp
  have f: "fst (transaction sample_lib sample_pi dispense_request_tx (world_with [published_tx])) =
             Inr (Some published_tx, dispense_request_tx)"
    by code_simp
  have tr: "transaction sample_lib sample_pi dispense_request_tx (world_with [published_tx]) =
              (Inr (Some published_tx, dispense_request_tx), w1)"
    using f w1 by (simp add: prod_eq_iff)
  have req: "(truthy (getp dispense_request_tx ''dispense'') \<and>
              \<not> truthy (getp published_tx ''dispense'')) \<or>
             (truthy (getp dispense_request_tx ''redeem'') \<and>
              \<not> truthy (getp published_tx ''redeem''))"
    by (simp add: getp_def dispense_request_tx_def published_tx_def)
  have cas: "buildCassettes sample_pi =
               Inr (JObj [(''cassettes'',
                      JArr [JObj [(''denomination'', JNum 20), (''count'', JNum 5)],
                            JObj [(''denomination'', JNum 50), (''count'', JNum 5)]])])"
    by (simp add: sample_pi_def)
  have mem: "member (JObj [(''cassettes'',
                      JArr [JObj [(''denomination'', JNum 20), (''count'', JNum 5)],
                            JObj [(''denomination'', JNum 50), (''count'', JNum 5)]])])
               ''cassettes'' =
             Inr (JArr [JObj [(''denomination'', JNum 20), (''count'', JNum 5)],
                        JObj [(''denomination'', JNum 50), (''count'', JNum 5)]])"
    by (simp add: getp_def)
  have none: "\<not> truthy (makeChange sample_lib
                           (JArr [JObj [(''denomination'', JNum 20), (''count'', JNum 5)],
                                  JObj [(''denomination'', JNum 50), (''count'', JNum 5)]])
                           (getp dispense_request_tx ''fiat''))"
    by (simp add: sample_lib_def)
  have a: "cash_out_actions w1 = []"
    unfolding w1 by code_simp
  from post_out_of_bills [OF tr req cas mem none] a w1 show ?thesis
    by (simp add: httpError_def INSUFFICIENT_FUNDS_CODE_def sqlValue_def getp_def
        dispense_request_tx_def)
qed

section \<open>Idempotence of post\<close>

lemma strict_eq_refl: "primitive v \<Longrightarrow> strict_eq v v"
  by (cases v) simp_all

lemma isEqualWith_refl: "primitive v \<Longrightarrow> isEqualWith nilEqual v v"
  by (cases v) (simp_all add: nilEqual_def)

lemma diff_empty:
  assumes "\<forall>f\<in>set UPDATEABLE_FIELDS. isEqualWith nilEqual (getp old f) (getp new f)"
  shows "diff (Some old) new = []"
  using assms by (simp add: diff_def UPDATEABLE_FIELDS_def)

lemma update_keeps_actions:
  "cash_out_actions (snd (update tx changes w)) = cash_out_actions w"
  by (simp add: update_def resolve_def reject_def andThen_def db_update_tx_def logged_def
      split: sum.splits)

lemma preProcess_identical:
  assumes same: "\<forall>k\<in>set comparedFields. getp tx k = getp old k"
    and prim: "\<forall>k\<in>set UPDATEABLE_FIELDS. primitive (getp tx k)"
  shows "preProcess pi (Some old) tx w = (Inr (updateStatus old tx), w)"
proof -
  have p: "primitive (getp old ''status'')"
    using prim same by (simp add: UPDATEABLE_FIELDS_def comparedFields_def)
  have e: "getp tx ''status'' = getp old ''status''"
    using same by (simp add: UPDATEABLE_FIELDS_def comparedFields_def)
  have r: "ratchetStatus (getp old ''status'') (getp tx ''status'') = getp old ''status''"
    using e strict_eq_refl [OF p] by (simp add: ratchetStatus_def)
  have s: "getp (updateStatus old tx) k = (if k = ''status'' then getp old k else getp tx k)"
    for k
    using r by (simp add: updateStatus_def set_fp_def getp_update)
  show ?thesis
    unfolding preProcess_def
    using same strict_eq_refl [OF p]
    by (simp add: s Let_def resolve_def UPDATEABLE_FIELDS_def comparedFields_def)
qed

lemma diff_identical:
  assumes same: "\<forall>k\<in>set comparedFields. getp tx k = getp old k"
    and prim: "\<forall>k\<in>set UPDATEABLE_FIELDS. primitive (getp tx k)"
  shows "diff (Some old) (updateStatus old tx) = []"
proof -
  have p: "primitive (getp old ''status'')"
    using prim same by (simp add: UPDATEABLE_FIELDS_def comparedFields_def)
  have e: "getp tx ''status'' = getp old ''status''"
    using same by (simp add: UPDATEABLE_FIELDS_def comparedFields_def)
  have r: "ratchetStatus (getp old ''status'') (getp tx ''status'') = getp old ''status''"
    using e strict_eq_refl [OF p] by (simp add: ratchetStatus_def)
  have s: "getp (updateStatus old tx) k = (if k = ''status'' then getp old k else getp tx k)"
    for k
    using r by (simp add: updateStatus_def set_fp_def getp_update)
  have "\<forall>f\<in>set UPDATEABLE_FIELDS. getp (updateStatus old tx) f = getp old f"
    using same by (simp add: s UPDATEABLE_FIELDS_def comparedFields_def)
  moreover have "\<forall>f\<in>set UPDATEABLE_FIELDS. primitive (getp old f)"
    using same prim by (simp add: UPDATEABLE_FIELDS_def comparedFields_def)
  ultimately have "\<forall>f\<in>set UPDATEABLE_FIELDS.
          isEqualWith nilEqual (getp old f) (getp (updateStatus old tx) f)"
    by (simp add: isEqualWith_refl del: isEqualWith.simps)
  then show ?thesis by (rule diff_empty)
qed

lemma postProcess_identical:
  assumes "getp new ''dispense'' = getp old ''dispense''"
    and "getp new ''redeem'' = getp old ''redeem''"
  shows "postProcess lib pi (Some old, new) w = (Inr new, w)"
  using assms
  by (simp add: postProcess_def newlyRequested_def bindE_def andThen_def of_result_def
      resolve_def)

text \<open>
  Claim C9. When the stored row of the transaction reads back as a record \<open>old\<close> and the
  incoming record has the same value as \<open>old\<close> in every field the module compares (the
  updateable fields, holding column values: text, booleans, numbers or nil, and
  \<open>dispenseConfirmed\<close>), the diff computed by \<open>post\<close> is empty, the transaction step
  sends nothing but its select, and \<open>post\<close> appends no audit entry.
\<close>

theorem post_identical_is_idempotent:
  assumes row: "matching (getp tx ''id'') (cash_out_txs w) = [row]"
    and old: "toObj lib row = old"
    and same: "\<forall>k\<in>set comparedFields. getp tx k = getp old k"
    and prim: "\<forall>k\<in>set UPDATEABLE_FIELDS. primitive (getp tx k)"
  shows "diff (Some old) (updateStatus old tx) = [] \<and>
         transaction lib pi tx w =
           (Inr (Some old, updateStatus old tx), logged (SelectTx (getp tx ''id'')) w) \<and>
         cash_out_actions (snd (post lib pi tx w)) = cash_out_actions w"
proof -
  have d: "diff (Some old) (updateStatus old tx) = []"
    by (rule diff_identical [OF same prim])
  have sel: "db_oneOrNone_tx (getp tx ''id'') w =
               (Inr (Some row), logged (SelectTx (getp tx ''id'')) w)"
    by (simp add: db_oneOrNone_tx_def row)
  have tr: "transaction lib pi tx w =
              (Inr (Some old, updateStatus old tx), logged (SelectTx (getp tx ''id'')) w)"
    by (simp add: transaction_def andThen_def sel old Let_def
        preProcess_identical [OF same prim] upsert_def d update_def resolve_def)
  have g: "getp (updateStatus old tx) ''dispense'' = getp old ''dispense''"
          "getp (updateStatus old tx) ''redeem'' = getp old ''redeem''"
    using same
    by (simp_all add: updateStatus_def set_fp_def getp_update UPDATEABLE_FIELDS_def
        comparedFields_def)
  have "post lib pi tx w =
          update (updateStatus old tx) (updateStatus old tx)
            (logged (SelectTx (getp tx ''id'')) w)"
    by (simp add: post_def andThen_def tr postProcess_identical [OF g])
  then have "cash_out_actions (snd (post lib pi tx w)) = cash_out_actions w"
    by (simp add: update_keeps_actions logged_def)
  with d tr show ?thesis by simp
qed

theorem post_identical_is_idempotent_witness:
  "diff (Some published_tx) (updateStatus published_tx published_tx) = [] \<and>
   cash_out_actions (snd (post sample_lib sample_pi published_tx (world_with [published_tx]))) = []"
proof -
  have row: "matching (getp published_tx ''id'') (cash_out_txs (world_with [published_tx])) =
               [published_tx]"
    by (simp add: matching_def sql_eq_def getp_def published_tx_def world_with_def)
  have old: "toObj sample_lib published_tx = published_tx"
    by (simp add: sample_lib_def)
  have same: "\<forall>k\<in>set comparedFields. getp published_tx k = getp published_tx k"
    by simp
  have prim: "\<forall>k\<in>set UPDATEABLE_FIELDS. primitive (getp published_tx k)"
    by (simp add: UPDATEABLE_FIELDS_def getp_def published_tx_def)
  from post_identical_is_idempotent [OF row old same prim, of sample_pi]
  show ?thesis by (simp add: world_with_def)
qed

section \<open>Properties of cancellation\<close>

text \<open>
  When the table refuses the statement, \<open>cancel\<close> rejects with the table's error, not
  with \<open>No such tx-id\<close>, for every id; no row changes and no audit entry is appended.
\<close>

lemma cancel_refused_by_store:
  assumes "storeCheck updateRec = Inl e"
  shows "cancel storeCheck txId w = (Inl e, logged (UpdateTx updateRec txId) w)"
  using assms by (simp add: cancel_def db_result_update_tx_def andThen_def)

text \<open>
  Claim C8 as the module has it. Provided the table accepts the statement of \<open>cancel\<close>
  (whose \<open>dispense_time\<close> value is the text \<open>now()^\<close>), \<open>cancel\<close> fails with \<open>No such tx-id\<close>
  exactly when the number of rows with the given id is not one, whatever state the row
  is in; when it succeeds it appends exactly one \<open>operatorCompleted\<close> audit entry, and
  when it fails it appends none.
\<close>

theorem cancel_by_row_count:
  assumes "storeCheck updateRec = Inr stored"
  shows "fst (cancel storeCheck txId w) =
           (if length (matching txId (cash_out_txs w)) = 1 then Inr ()
            else Inl (JsError ''Error'' ''No such tx-id'' JUndefined)) \<and>
         cash_out_actions (snd (cancel storeCheck txId w)) =
           (if length (matching txId (cash_out_txs w)) = 1
            then cash_out_actions w @
                   [[(''action'', JStr ''operatorCompleted''), (''tx_id'', sqlValue txId),
                     (''redeem'', JBool False)]]
            else cash_out_actions w)"
  using assms
  by (simp add: cancel_def logActionById_def assign_fp_def db_result_update_tx_def
      db_insert_action_def logged_def sqlValues_def sqlValue_def promise_defs)

theorem cancel_by_row_count_witness:
  "text_store updateRec = Inr updateRec \<and>
   fst (cancel text_store (JStr ''t1'') (world_with [published_tx])) = Inr () \<and>
   cash_out_actions (snd (cancel text_store (JStr ''t1'') (world_with [published_tx]))) =
     [[(''action'', JStr ''operatorCompleted''), (''tx_id'', JStr ''t1''),
       (''redeem'', JBool False)]] \<and>
   fst (cancel text_store (JStr ''t2'') (world_with [published_tx])) =
     Inl (JsError ''Error'' ''No such tx-id'' JUndefined) \<and>
   cash_out_actions (snd (cancel text_store (JStr ''t2'') (world_with [published_tx]))) = []"
proof -
  have h: "text_store updateRec = Inr updateRec"
    by (simp add: text_store_def)
  from cancel_by_row_count
         [of text_store updateRec "JStr ''t1''" "world_with [published_tx]", OF h]
       cancel_by_row_count
         [of text_store updateRec "JStr ''t2''" "world_with [published_tx]", OF h]
       h
  show ?thesis
    by (simp add: matching_def sql_eq_def sqlValue_def getp_def published_tx_def
        world_with_def)
qed

text \<open>
  Claim C8 as stated fails whatever the table does with the text. On a table that
  keeps it, a transaction that is already terminal is cancelled again: after a first
  \<open>cancel\<close> has set the operator-cancel error and \<open>dispense\<close> on the row, a second
  \<open>cancel\<close> of the same id succeeds and appends a second \<open>operatorCompleted\<close> entry. On
  a table that refuses it, \<open>cancel\<close> of an id with no row fails with the table's error
  and not with \<open>No such tx-id\<close>, and \<open>cancel\<close> of the open transaction does not succeed.
\<close>

theorem cancel_ignores_terminal_state:
  "fst (cancel text_store (JStr ''t1'') (world_with [published_tx])) = Inr () \<and>
   cash_out_txs (snd (cancel text_store (JStr ''t1'') (world_with [published_tx]))) =
     [[(''id'', JStr ''t1''), (''status'', JStr ''published''), (''phone'', JStr ''555''),
       (''dispense_time'', JStr ''now()^''), (''error'', JStr ''Operator cancel''),
       (''dispense'', JBool True)]] \<and>
   fst (cancel text_store (JStr ''t1'')
          (snd (cancel text_store (JStr ''t1'') (world_with [published_tx])))) = Inr () \<and>
   cash_out_actions
     (snd (cancel text_store (JStr ''t1'')
             (snd (cancel text_store (JStr ''t1'') (world_with [published_tx]))))) =
     [[(''action'', JStr ''operatorCompleted''), (''tx_id'', JStr ''t1''),
       (''redeem'', JBool False)],
      [(''action'', JStr ''operatorCompleted''), (''tx_id'', JStr ''t1''),
       (''redeem'', JBool False)]] \<and>
   fst (cancel strict_timestamp_store (JStr ''t2'') (world_with [published_tx])) =
     Inl (JsError ''error'' ''invalid input syntax for type timestamp with time zone''
            (JStr ''22007'')) \<and>
   fst (cancel strict_timestamp_store (JStr ''t1'') (world_with [published_tx])) =
     Inl (JsError ''error'' ''invalid input syntax for type timestamp with time zone''
            (JStr ''22007'')) \<and>
   cash_out_actions
     (snd (cancel strict_timestamp_store (JStr ''t1'') (world_with [published_tx]))) = []"
  by code_simp

end
